theory Spec2Isabelle
  imports Complex_Main
begin

section \<open>Python floats and the library calls of \<^verbatim>\<open>sez_to_ecef.py\<close>\<close>

text \<open>
  The script computes with Python floats. A float is modelled as a real number or one of
  the three special values that \<^verbatim>\<open>float()\<close> can return and that arithmetic
  propagates. Finite arithmetic is idealised: it is exact (no rounding, one zero, and
  \<open>+\<close> and \<open>*\<close>, which overflow silently in Python, do not overflow). What is
  kept of the machine is what decides control flow: the special values, and the
  exceptions that \<^verbatim>\<open>math.sin\<close>, \<^verbatim>\<open>math.cos\<close>, \<^verbatim>\<open>math.sqrt\<close>,
  \<^verbatim>\<open>/\<close> and \<^verbatim>\<open>**\<close> raise.
\<close>

datatype pyfloat = Finite real | PInf | NInf | NaN

datatype py_error =
    ValueError_float    \<comment> \<open>\<^verbatim>\<open>float(s)\<close>: could not convert string to float\<close>
  | ValueError_domain   \<comment> \<open>\<^verbatim>\<open>math\<close>: math domain error\<close>
  | ZeroDivisionError   \<comment> \<open>float division by zero\<close>
  | OverflowError       \<comment> \<open>\<^verbatim>\<open>x**2\<close>: numerical result out of range\<close>

type_synonym 'a result = "py_error + 'a"

definition bind_r :: "'a result \<Rightarrow> ('a \<Rightarrow> 'b result) \<Rightarrow> 'b result" where
  "bind_r m f = (case m of Inl err \<Rightarrow> Inl err | Inr v \<Rightarrow> f v)"

text \<open>The infinity with the sign of \<open>r\<close>; \<open>inf * 0\<close> is \<open>nan\<close>.\<close>

definition inf_of_sign :: "real \<Rightarrow> pyfloat" where
  "inf_of_sign r = (if r = 0 then NaN else if 0 < r then PInf else NInf)"

fun fl_neg :: "pyfloat \<Rightarrow> pyfloat" where
  "fl_neg (Finite a) = Finite (- a)"
| "fl_neg PInf = NInf"
| "fl_neg NInf = PInf"
| "fl_neg NaN = NaN"

fun fl_add :: "pyfloat \<Rightarrow> pyfloat \<Rightarrow> pyfloat" where
  "fl_add (Finite a) (Finite b) = Finite (a + b)"
| "fl_add NaN _ = NaN"
| "fl_add _ NaN = NaN"
| "fl_add PInf NInf = NaN"
| "fl_add NInf PInf = NaN"
| "fl_add PInf _ = PInf"
| "fl_add _ PInf = PInf"
| "fl_add NInf _ = NInf"
| "fl_add _ NInf = NInf"

definition fl_sub :: "pyfloat \<Rightarrow> pyfloat \<Rightarrow> pyfloat" where
  "fl_sub x y = fl_add x (fl_neg y)"

fun fl_mul :: "pyfloat \<Rightarrow> pyfloat \<Rightarrow> pyfloat" where
  "fl_mul (Finite a) (Finite b) = Finite (a * b)"
| "fl_mul NaN _ = NaN"
| "fl_mul _ NaN = NaN"
| "fl_mul PInf (Finite b) = inf_of_sign b"
| "fl_mul NInf (Finite b) = inf_of_sign (- b)"
| "fl_mul (Finite a) PInf = inf_of_sign a"
| "fl_mul (Finite a) NInf = inf_of_sign (- a)"
| "fl_mul PInf PInf = PInf"
| "fl_mul NInf NInf = PInf"
| "fl_mul PInf NInf = NInf"
| "fl_mul NInf PInf = NInf"

text \<open>
  Float division: Python tests the divisor against zero first and raises
  \<^verbatim>\<open>ZeroDivisionError\<close>, whatever the dividend.
\<close>

fun fl_quot :: "pyfloat \<Rightarrow> pyfloat \<Rightarrow> pyfloat" where
  "fl_quot (Finite a) (Finite b) = Finite (a / b)"
| "fl_quot NaN _ = NaN"
| "fl_quot _ NaN = NaN"
| "fl_quot PInf (Finite b) = inf_of_sign b"
| "fl_quot NInf (Finite b) = inf_of_sign (- b)"
| "fl_quot (Finite a) _ = Finite 0"
| "fl_quot _ _ = NaN"

definition fl_div :: "pyfloat \<Rightarrow> pyfloat \<Rightarrow> pyfloat result" where
  "fl_div x y = (if y = Finite 0 then Inl ZeroDivisionError else Inr (fl_quot x y))"

text \<open>
  \<^verbatim>\<open>x**2\<close> on a float: the square. Unlike \<open>*\<close>, the power operator raises
  \<^verbatim>\<open>OverflowError\<close> when the square of a finite float is out of range, that is,
  when it would round to infinity: from \<open>2^1024 - 2^970\<close> on, half a unit in the last
  place above the largest float. Both infinities give \<open>inf\<close>, without raising.
\<close>

definition overflow_bound :: real where
  "overflow_bound = 2 ^ 1024 - 2 ^ 970"

fun fl_pow2 :: "pyfloat \<Rightarrow> pyfloat result" where
  "fl_pow2 (Finite a) =
     (if overflow_bound \<le> a\<^sup>2 then Inl OverflowError else Inr (Finite (a\<^sup>2)))"
| "fl_pow2 NaN = Inr NaN"
| "fl_pow2 _ = Inr PInf"

text \<open>
  The \<^verbatim>\<open>math\<close> module: \<^verbatim>\<open>sqrt\<close> raises on a negative argument,
  \<^verbatim>\<open>sin\<close> and \<^verbatim>\<open>cos\<close> raise on an infinite one; all three return
  \<open>nan\<close> on \<open>nan\<close>. \<^verbatim>\<open>radians(x)\<close> is \<open>x * (pi / 180)\<close>.
\<close>

fun math_sqrt :: "pyfloat \<Rightarrow> pyfloat result" where
  "math_sqrt (Finite a) = (if a < 0 then Inl ValueError_domain else Inr (Finite (sqrt a)))"
| "math_sqrt PInf = Inr PInf"
| "math_sqrt NInf = Inl ValueError_domain"
| "math_sqrt NaN = Inr NaN"

fun math_sin :: "pyfloat \<Rightarrow> pyfloat result" where
  "math_sin (Finite a) = Inr (Finite (sin a))"
| "math_sin NaN = Inr NaN"
| "math_sin _ = Inl ValueError_domain"

fun math_cos :: "pyfloat \<Rightarrow> pyfloat result" where
  "math_cos (Finite a) = Inr (Finite (cos a))"
| "math_cos NaN = Inr NaN"
| "math_cos _ = Inl ValueError_domain"

definition math_radians :: "pyfloat \<Rightarrow> pyfloat" where
  "math_radians x = fl_mul x (Finite (pi / 180))"

section \<open>The constants and the helper functions\<close>

definition R_E_KM :: pyfloat where
  "R_E_KM = Finite 6378.137"

definition E_E :: pyfloat where
  "E_E = Finite 0.081819221456"

text \<open>\<^verbatim>\<open>return math.sqrt(1.0-(ecc**2)*(math.sin(lat_rad)**2))\<close>\<close>

definition calc_denom :: "pyfloat \<Rightarrow> pyfloat \<Rightarrow> pyfloat result" where
  "calc_denom ecc lat_rad =
     bind_r (fl_pow2 ecc) (\<lambda>ecc_sq.
     bind_r (math_sin lat_rad) (\<lambda>sin_lat.
     bind_r (fl_pow2 sin_lat) (\<lambda>sin_sq.
       math_sqrt (fl_sub (Finite 1) (fl_mul ecc_sq sin_sq)))))"

definition llh_to_ecef ::
  "pyfloat \<Rightarrow> pyfloat \<Rightarrow> pyfloat \<Rightarrow> (pyfloat \<times> pyfloat \<times> pyfloat) result" where
  "llh_to_ecef o_lat_rad o_lon_rad o_hae_km =
     bind_r (calc_denom E_E o_lat_rad) (\<lambda>denom.
     bind_r (fl_div R_E_KM denom) (\<lambda>N.
     bind_r (math_cos o_lat_rad) (\<lambda>cx_lat.
     bind_r (math_cos o_lon_rad) (\<lambda>cx_lon.
     bind_r (math_cos o_lat_rad) (\<lambda>cy_lat.
     bind_r (math_sin o_lon_rad) (\<lambda>sy_lon.
     bind_r (fl_pow2 E_E) (\<lambda>ecc_sq.
     bind_r (math_sin o_lat_rad) (\<lambda>sz_lat.
       Inr (fl_mul (fl_mul (fl_add N o_hae_km) cx_lat) cx_lon,
            fl_mul (fl_mul (fl_add N o_hae_km) cy_lat) sy_lon,
            fl_mul (fl_add (fl_mul N (fl_sub (Finite 1) ecc_sq)) o_hae_km)
                   sz_lat)))))))))"

definition sez_to_ecef ::
  "pyfloat \<Rightarrow> pyfloat \<Rightarrow> pyfloat \<Rightarrow> pyfloat \<Rightarrow> pyfloat \<Rightarrow>
   (pyfloat \<times> pyfloat \<times> pyfloat) result" where
  "sez_to_ecef o_lat_rad o_lon_rad s_km e_km z_km =
     bind_r (math_cos o_lat_rad) (\<lambda>cos_lat.
     bind_r (math_sin o_lat_rad) (\<lambda>sin_lat.
     bind_r (math_cos o_lon_rad) (\<lambda>cos_lon.
     bind_r (math_sin o_lon_rad) (\<lambda>sin_lon.
       Inr (fl_add (fl_add (fl_mul (fl_mul s_km sin_lat) cos_lon)
                           (fl_mul e_km (fl_neg sin_lon)))
                   (fl_mul (fl_mul z_km cos_lat) cos_lon),
            fl_add (fl_add (fl_mul (fl_mul s_km sin_lat) sin_lon)
                           (fl_mul e_km cos_lon))
                   (fl_mul (fl_mul z_km cos_lat) sin_lon),
            fl_add (fl_mul s_km (fl_neg cos_lat)) (fl_mul z_km sin_lat))))))"

section \<open>The script\<close>

text \<open>
  A run of the script: what it wrote to standard output, line by line, and how it ended.
  \<^verbatim>\<open>print(x)\<close> of a float is recorded as the float itself, not as its decimal text.
  \<^verbatim>\<open>sys.argv\<close> is the list \<open>argv\<close>, the script's name first. The builtin
  \<^verbatim>\<open>float\<close> is the parameter \<open>parse\<close>: \<open>None\<close> where it raises
  \<^verbatim>\<open>ValueError\<close>.
\<close>

datatype line = Text string | Number pyfloat

datatype outcome = Completed | Exited | Raised py_error

record run =
  stdout :: "line list"
  outcome :: outcome

definition usage :: string where
  "usage = ''Usage: python3 sez_to_ecef.py o_lat_deg o_lon_deg o_hae_km s_km e_km z_km''"

definition raise :: "py_error \<Rightarrow> run" where
  "raise err = \<lparr>stdout = [], outcome = Raised err\<rparr>"

text \<open>
  The script after its arguments are parsed: lines 79 to 97. The six variables hold the
  parsed values there; their initial \<open>nan\<close> (lines 60 to 65) is never read.
\<close>

definition body ::
  "pyfloat \<Rightarrow> pyfloat \<Rightarrow> pyfloat \<Rightarrow> pyfloat \<Rightarrow> pyfloat \<Rightarrow> pyfloat \<Rightarrow> run" where
  "body o_lat_deg o_lon_deg o_hae_km s_km e_km z_km =
     (let o_lat_rad = math_radians o_lat_deg;
          o_lon_rad = math_radians o_lon_deg
      in case llh_to_ecef o_lat_rad o_lon_rad o_hae_km of
           Inl err \<Rightarrow> raise err
         | Inr (obs_ecef_x_km, obs_ecef_y_km, obs_ecef_z_km) \<Rightarrow>
             (case sez_to_ecef o_lat_rad o_lon_rad s_km e_km z_km of
                Inl err \<Rightarrow> raise err
              | Inr (sez_x_km, sez_y_km, sez_z_km) \<Rightarrow>
                  \<lparr>stdout = [Number (fl_add obs_ecef_x_km sez_x_km),
                             Number (fl_add obs_ecef_y_km sez_y_km),
                             Number (fl_add obs_ecef_z_km sez_z_km)],
                   outcome = Completed\<rparr>))"

text \<open>The whole script: the argument count, the six conversions in order, the body.\<close>

definition main :: "(string \<Rightarrow> pyfloat option) \<Rightarrow> string list \<Rightarrow> run" where
  "main parse argv =
     (if length argv = 7 then
        (case parse (argv ! 1) of None \<Rightarrow> raise ValueError_float | Some o_lat_deg \<Rightarrow>
        (case parse (argv ! 2) of None \<Rightarrow> raise ValueError_float | Some o_lon_deg \<Rightarrow>
        (case parse (argv ! 3) of None \<Rightarrow> raise ValueError_float | Some o_hae_km \<Rightarrow>
        (case parse (argv ! 4) of None \<Rightarrow> raise ValueError_float | Some s_km \<Rightarrow>
        (case parse (argv ! 5) of None \<Rightarrow> raise ValueError_float | Some e_km \<Rightarrow>
        (case parse (argv ! 6) of None \<Rightarrow> raise ValueError_float | Some z_km \<Rightarrow>
           body o_lat_deg o_lon_deg o_hae_km s_km e_km z_km))))))
      else \<lparr>stdout = [Text usage], outcome = Exited\<rparr>)"

section \<open>Vocabulary of the statements\<close>

text \<open>An infinite float: the arguments on which \<^verbatim>\<open>math.sin\<close> and \<^verbatim>\<open>math.cos\<close> raise.\<close>

fun is_inf :: "pyfloat \<Rightarrow> bool" where
  "is_inf PInf = True"
| "is_inf NInf = True"
| "is_inf _ = False"

text \<open>All six arguments convert; the latitude or the longitude converts to an infinity.\<close>

definition args_parse :: "(string \<Rightarrow> pyfloat option) \<Rightarrow> string list \<Rightarrow> bool" where
  "args_parse parse argv = list_all (\<lambda>i. parse (argv ! i) \<noteq> None) [1, 2, 3, 4, 5, 6]"

definition infinite_angle :: "(string \<Rightarrow> pyfloat option) \<Rightarrow> string list \<Rightarrow> bool" where
  "infinite_angle parse argv =
     (parse (argv ! 1) \<in> {Some PInf, Some NInf} \<or> parse (argv ! 2) \<in> {Some PInf, Some NInf})"

text \<open>
  For the concrete runs below, the builtin \<^verbatim>\<open>float\<close> on the strings they use:
  \<^verbatim>\<open>float('0') = 0.0\<close>, \<^verbatim>\<open>float('90') = 90.0\<close>, \<^verbatim>\<open>float('inf') = inf\<close>,
  \<^verbatim>\<open>float('-inf') = -inf\<close>, \<^verbatim>\<open>float('nan') = nan\<close>, and \<^verbatim>\<open>float('abc')\<close>
  raises \<^verbatim>\<open>ValueError\<close>. The table is a sample of the builtin, applied to these six
  strings only; every general statement is about an arbitrary \<open>parse\<close>.
\<close>

definition float_sample :: "string \<Rightarrow> pyfloat option" where
  "float_sample = map_of
     [(''0'', Finite 0), (''90'', Finite 90), (''inf'', PInf), (''-inf'', NInf),
      (''nan'', NaN)]"

section \<open>The denominator is defined\<close>

lemma sin_sq_le_1: "(sin (x::real))\<^sup>2 \<le> 1"
  by (simp add: abs_square_le_1)

lemma denom_arg_lower:
  fixes e x :: real
  assumes "0 \<le> e\<^sup>2"
  shows "1 - e\<^sup>2 \<le> 1 - e\<^sup>2 * (sin x)\<^sup>2"
proof -
  have "e\<^sup>2 * (sin x)\<^sup>2 \<le> e\<^sup>2 * 1"
    by (rule mult_left_mono [OF sin_sq_le_1 assms])
  then show ?thesis by simp
qed

lemma E_E_sq_lt_1: "(0::real) < 1 - 0.081819221456\<^sup>2"
  by (simp add: power2_eq_square)

lemma denom_arg_pos: "(0::real) < 1 - 0.081819221456\<^sup>2 * (sin x)\<^sup>2"
  by (rule less_le_trans [OF E_E_sq_lt_1 denom_arg_lower]) simp

lemma one_lt_overflow_bound: "1 < overflow_bound"
  by (simp add: overflow_bound_def)

lemma fl_pow2_in_range:
  assumes "a\<^sup>2 \<le> 1"
  shows "fl_pow2 (Finite a) = Inr (Finite (a\<^sup>2))"
  using assms one_lt_overflow_bound by simp

lemma fl_pow2_sin: "fl_pow2 (Finite (sin x)) = Inr (Finite ((sin x)\<^sup>2))"
  by (rule fl_pow2_in_range [OF sin_sq_le_1])

lemma fl_pow2_E_E: "fl_pow2 E_E = Inr (Finite (0.081819221456\<^sup>2))"
  unfolding E_E_def by (rule fl_pow2_in_range) (simp add: power2_eq_square)

lemma calc_denom_Finite:
  assumes "e\<^sup>2 \<le> 1"
  shows "calc_denom (Finite e) (Finite x) =
     (if 1 - e\<^sup>2 * (sin x)\<^sup>2 < 0 then Inl ValueError_domain
      else Inr (Finite (sqrt (1 - e\<^sup>2 * (sin x)\<^sup>2))))"
  unfolding calc_denom_def fl_pow2_in_range [OF assms]
  by (simp add: bind_r_def fl_sub_def fl_pow2_sin del: fl_pow2.simps)

lemma calc_denom_E_E:
  "calc_denom E_E (Finite x) = Inr (Finite (sqrt (1 - 0.081819221456\<^sup>2 * (sin x)\<^sup>2)))"
proof -
  have "(0.081819221456::real)\<^sup>2 \<le> 1"
    by (simp add: power2_eq_square)
  from calc_denom_Finite [OF this, of x] denom_arg_pos [of x] show ?thesis
    by (simp add: E_E_def)
qed

lemma calc_denom_NaN: "calc_denom E_E NaN = Inr NaN"
  unfolding calc_denom_def fl_pow2_E_E by (simp add: bind_r_def fl_sub_def)

lemma calc_denom_inf: "is_inf lat \<Longrightarrow> calc_denom E_E lat = Inl ValueError_domain"
  unfolding calc_denom_def fl_pow2_E_E by (cases lat) (simp_all add: bind_r_def)

section \<open>Which runs of the helpers raise\<close>

lemma is_inf_iff: "is_inf x = (x \<in> {PInf, NInf})"
  by (cases x) simp_all

lemma math_radians_simps:
  "math_radians (Finite a) = Finite (a * (pi / 180))"
  "math_radians PInf = PInf" "math_radians NInf = NInf" "math_radians NaN = NaN"
  by (simp_all add: math_radians_def inf_of_sign_def)

lemma is_inf_radians: "is_inf (math_radians x) = is_inf x"
  by (cases x) (simp_all add: math_radians_simps)

lemma N_defined:
  assumes "\<not> is_inf lat"
  shows "\<exists>N. bind_r (calc_denom E_E lat) (fl_div R_E_KM) = Inr N"
proof (cases lat)
  case (Finite a)
  have "sqrt (1 - 0.081819221456\<^sup>2 * (sin a)\<^sup>2) \<noteq> 0"
    using denom_arg_pos [of a] by simp
  then show ?thesis
    unfolding Finite calc_denom_E_E by (simp add: bind_r_def fl_div_def)
next
  case NaN
  then show ?thesis by (simp add: calc_denom_NaN bind_r_def fl_div_def)
qed (use assms in simp_all)

lemma trig_defined:
  assumes "\<not> is_inf x"
  shows "\<exists>c s. math_cos x = Inr c \<and> math_sin x = Inr s"
  using assms by (cases x) simp_all

lemma trig_inf:
  assumes "is_inf x"
  shows "math_cos x = Inl ValueError_domain" "math_sin x = Inl ValueError_domain"
  using assms by (cases x; simp)+

lemma llh_to_ecef_defined:
  assumes "\<not> is_inf lat" "\<not> is_inf lon"
  shows "\<exists>x y z. llh_to_ecef lat lon h = Inr (x, y, z)"
proof -
  obtain N where N: "bind_r (calc_denom E_E lat) (fl_div R_E_KM) = Inr N"
    using N_defined [OF assms(1)] by blast
  obtain c s where lat: "math_cos lat = Inr c" "math_sin lat = Inr s"
    using trig_defined [OF assms(1)] by blast
  obtain c' s' where lon: "math_cos lon = Inr c'" "math_sin lon = Inr s'"
    using trig_defined [OF assms(2)] by blast
  from N show ?thesis
    unfolding llh_to_ecef_def fl_pow2_E_E
    by (auto simp: bind_r_def lat lon split: sum.splits)
qed

lemma llh_to_ecef_inf:
  assumes "is_inf lat \<or> is_inf lon"
  shows "llh_to_ecef lat lon h = Inl ValueError_domain"
proof (cases "is_inf lat")
  case True
  then show ?thesis by (simp add: llh_to_ecef_def calc_denom_inf bind_r_def)
next
  case False
  with assms have lon: "is_inf lon" by simp
  obtain N where N: "bind_r (calc_denom E_E lat) (fl_div R_E_KM) = Inr N"
    using N_defined [OF False] by blast
  obtain c s where lat: "math_cos lat = Inr c" "math_sin lat = Inr s"
    using trig_defined [OF False] by blast
  from N show ?thesis
    unfolding llh_to_ecef_def fl_pow2_E_E
    by (auto simp: bind_r_def lat trig_inf [OF lon] split: sum.splits)
qed

lemma sez_to_ecef_defined:
  assumes "\<not> is_inf lat" "\<not> is_inf lon"
  shows "\<exists>x y w. sez_to_ecef lat lon s e z = Inr (x, y, w)"
proof -
  obtain c s where lat: "math_cos lat = Inr c" "math_sin lat = Inr s"
    using trig_defined [OF assms(1)] by blast
  obtain c' s' where lon: "math_cos lon = Inr c'" "math_sin lon = Inr s'"
    using trig_defined [OF assms(2)] by blast
  show ?thesis
    by (simp add: sez_to_ecef_def bind_r_def lat lon)
qed

lemma llh_z_indep:
  assumes "llh_to_ecef lat lon h = Inr (x, y, z)" "llh_to_ecef lat lon' h = Inr (x', y', z')"
  shows "z' = z"
  using assms by (auto simp: llh_to_ecef_def bind_r_def split: sum.splits)

lemma sez_z_indep:
  assumes "sez_to_ecef lat lon s e z = Inr (x, y, w)"
    and "sez_to_ecef lat lon' s e z = Inr (x', y', w')"
  shows "w' = w"
  using assms by (auto simp: sez_to_ecef_def bind_r_def split: sum.splits)

section \<open>Which runs of the script raise\<close>

lemma body_inf:
  assumes "is_inf lat \<or> is_inf lon"
  shows "body lat lon h s e z = raise ValueError_domain"
proof -
  have "llh_to_ecef (math_radians lat) (math_radians lon) h = Inl ValueError_domain"
    by (rule llh_to_ecef_inf) (simp add: is_inf_radians assms)
  then show ?thesis by (simp add: body_def)
qed

lemma body_defined:
  assumes "\<not> is_inf lat" "\<not> is_inf lon"
  shows "\<exists>ox oy oz sx sy sz.
           llh_to_ecef (math_radians lat) (math_radians lon) h = Inr (ox, oy, oz)
         \<and> sez_to_ecef (math_radians lat) (math_radians lon) s e z = Inr (sx, sy, sz)
         \<and> body lat lon h s e z =
             \<lparr>stdout = [Number (fl_add ox sx), Number (fl_add oy sy), Number (fl_add oz sz)],
              outcome = Completed\<rparr>"
proof -
  have a: "\<not> is_inf (math_radians lat)" "\<not> is_inf (math_radians lon)"
    using assms by (simp_all add: is_inf_radians)
  obtain ox oy oz where
    o: "llh_to_ecef (math_radians lat) (math_radians lon) h = Inr (ox, oy, oz)"
    using llh_to_ecef_defined [OF a] by blast
  obtain sx sy sz where
    s: "sez_to_ecef (math_radians lat) (math_radians lon) s e z = Inr (sx, sy, sz)"
    using sez_to_ecef_defined [OF a] by blast
  show ?thesis by (simp add: body_def o s)
qed

lemma body_outcome:
  "outcome (body lat lon h s e z) =
     (if is_inf lat \<or> is_inf lon then Raised ValueError_domain else Completed)"
proof (cases "is_inf lat \<or> is_inf lon")
  case True
  then show ?thesis by (simp add: body_inf raise_def)
next
  case False
  then have "\<not> is_inf lat" "\<not> is_inf lon" by simp_all
  from body_defined [OF this, of h s e z] False show ?thesis by auto
qed

lemma body_z_indep:
  assumes "outcome (body lat lon h s e z) = Completed"
    and "outcome (body lat lon' h s e z) = Completed"
  shows "length (stdout (body lat lon h s e z)) = 3
       \<and> length (stdout (body lat lon' h s e z)) = 3
       \<and> stdout (body lat lon' h s e z) ! 2 = stdout (body lat lon h s e z) ! 2"
proof -
  from assms have ni: "\<not> is_inf lat" "\<not> is_inf lon" "\<not> is_inf lon'"
    by (auto simp: body_outcome split: if_splits)
  from body_defined [OF ni(1,2), of h s e z] obtain ox oy oz sx sy sz where
    a: "llh_to_ecef (math_radians lat) (math_radians lon) h = Inr (ox, oy, oz)"
       "sez_to_ecef (math_radians lat) (math_radians lon) s e z = Inr (sx, sy, sz)"
       "body lat lon h s e z =
             \<lparr>stdout = [Number (fl_add ox sx), Number (fl_add oy sy), Number (fl_add oz sz)],
              outcome = Completed\<rparr>"
    by blast
  from body_defined [OF ni(1,3), of h s e z] obtain ox' oy' oz' sx' sy' sz' where
    b: "llh_to_ecef (math_radians lat) (math_radians lon') h = Inr (ox', oy', oz')"
       "sez_to_ecef (math_radians lat) (math_radians lon') s e z = Inr (sx', sy', sz')"
       "body lat lon' h s e z =
             \<lparr>stdout = [Number (fl_add ox' sx'), Number (fl_add oy' sy'),
                        Number (fl_add oz' sz')],
              outcome = Completed\<rparr>"
    by blast
  have "oz' = oz" by (rule llh_z_indep [OF a(1) b(1)])
  moreover have "sz' = sz" by (rule sez_z_indep [OF a(2) b(2)])
  ultimately show ?thesis by (simp add: a(3) b(3))
qed

lemma body_equator:
  "body (Finite 0) (Finite 0) (Finite 0) (Finite 0) (Finite 0) (Finite 0) =
     \<lparr>stdout = [Number (Finite 6378.137), Number (Finite 0), Number (Finite 0)],
      outcome = Completed\<rparr>"
proof -
  have "calc_denom E_E (Finite 0) = Inr (Finite 1)"
    by (simp add: calc_denom_E_E)
  then have "llh_to_ecef (Finite 0) (Finite 0) (Finite 0) =
               Inr (Finite 6378.137, Finite 0, Finite 0)"
    unfolding llh_to_ecef_def fl_pow2_E_E
    by (simp add: bind_r_def fl_div_def fl_sub_def R_E_KM_def)
  moreover have "sez_to_ecef (Finite 0) (Finite 0) (Finite 0) (Finite 0) (Finite 0) =
                   Inr (Finite 0, Finite 0, Finite 0)"
    by (simp add: sez_to_ecef_def bind_r_def)
  ultimately show ?thesis
    by (simp add: body_def math_radians_simps Let_def)
qed

lemma main_parsed:
  assumes "length argv = 7"
    "parse (argv ! 1) = Some o_lat_deg" "parse (argv ! 2) = Some o_lon_deg"
    "parse (argv ! 3) = Some o_hae_km" "parse (argv ! 4) = Some s_km"
    "parse (argv ! 5) = Some e_km" "parse (argv ! 6) = Some z_km"
  shows "main parse argv = body o_lat_deg o_lon_deg o_hae_km s_km e_km z_km"
  using assms by (simp add: main_def)

lemma main_unparsed:
  assumes "length argv = 7" "\<not> args_parse parse argv"
  shows "main parse argv = raise ValueError_float"
  using assms by (auto simp: main_def args_parse_def split: option.splits)

lemma main_parsed_body:
  assumes "length argv = 7" "args_parse parse argv"
  shows "\<exists>lat lon h s e z. parse (argv ! 1) = Some lat \<and> parse (argv ! 2) = Some lon
           \<and> infinite_angle parse argv = (is_inf lat \<or> is_inf lon)
           \<and> main parse argv = body lat lon h s e z"
proof -
  from assms(2) obtain lat lon h s e z where
    p: "parse (argv ! 1) = Some lat" "parse (argv ! 2) = Some lon" "parse (argv ! 3) = Some h"
       "parse (argv ! 4) = Some s" "parse (argv ! 5) = Some e" "parse (argv ! 6) = Some z"
    by (auto simp: args_parse_def)
  have "main parse argv = body lat lon h s e z"
    by (rule main_parsed [OF assms(1) p])
  moreover have "infinite_angle parse argv = (is_inf lat \<or> is_inf lon)"
    using p(1,2) by (simp add: infinite_angle_def is_inf_iff)
  ultimately show ?thesis using p by blast
qed

lemma main_completed_body:
  assumes "length argv = 7" "outcome (main parse argv) = Completed"
  shows "\<exists>lat lon h s e z.
           parse (argv ! 1) = Some lat \<and> parse (argv ! 2) = Some lon \<and> parse (argv ! 3) = Some h
         \<and> parse (argv ! 4) = Some s \<and> parse (argv ! 5) = Some e \<and> parse (argv ! 6) = Some z
         \<and> main parse argv = body lat lon h s e z"
  using assms by (auto simp: main_def raise_def split: option.splits)

lemma float_sample_simps:
  "float_sample ''0'' = Some (Finite 0)" "float_sample ''90'' = Some (Finite 90)"
  "float_sample ''inf'' = Some PInf" "float_sample ''-inf'' = Some NInf"
  "float_sample ''nan'' = Some NaN" "float_sample ''abc'' = None"
  by (simp_all add: float_sample_def)

lemma rotation_norm_sq:
  fixes a b c d s e z :: real
  assumes ab: "a\<^sup>2 + b\<^sup>2 = 1" and cd: "c\<^sup>2 + d\<^sup>2 = 1"
  shows "(s * a * d - e * c + z * b * d)\<^sup>2 + (s * a * c + e * d + z * b * c)\<^sup>2
          + (- s * b + z * a)\<^sup>2 = s\<^sup>2 + e\<^sup>2 + z\<^sup>2"
proof -
  have "(s * a * d - e * c + z * b * d)\<^sup>2 + (s * a * c + e * d + z * b * c)\<^sup>2
          + (- s * b + z * a)\<^sup>2
      = (s * a + z * b)\<^sup>2 * (c\<^sup>2 + d\<^sup>2) + e\<^sup>2 * (c\<^sup>2 + d\<^sup>2) + (- s * b + z * a)\<^sup>2"
    by (simp add: power2_eq_square algebra_simps)
  also have "\<dots> = (s * a + z * b)\<^sup>2 + e\<^sup>2 + (- s * b + z * a)\<^sup>2"
    by (simp add: cd)
  also have "\<dots> = s\<^sup>2 * (a\<^sup>2 + b\<^sup>2) + e\<^sup>2 + z\<^sup>2 * (a\<^sup>2 + b\<^sup>2)"
    by (simp add: power2_eq_square algebra_simps)
  also have "\<dots> = s\<^sup>2 + e\<^sup>2 + z\<^sup>2"
    by (simp add: ab)
  finally show ?thesis .
qed

section \<open>The script as a whole\<close>

text \<open>
  C1, as amended. A run with exactly six arguments that all convert to floats, the
  latitude and the longitude not infinite, converts both angles to radians, gets the
  observer's position from \<^verbatim>\<open>llh_to_ecef\<close> and the rotated offset from
  \<^verbatim>\<open>sez_to_ecef\<close>, adds the two component by component and prints exactly the three
  sums, one per line, in the order x, y, z.
\<close>

theorem main_six_arguments:
  assumes "length argv = 7"
    and "parse (argv ! 1) = Some o_lat_deg" and "parse (argv ! 2) = Some o_lon_deg"
    and "parse (argv ! 3) = Some o_hae_km" and "parse (argv ! 4) = Some s_km"
    and "parse (argv ! 5) = Some e_km" and "parse (argv ! 6) = Some z_km"
    and "\<not> is_inf o_lat_deg" and "\<not> is_inf o_lon_deg"
  shows "\<exists>ox oy oz sx sy sz.
           llh_to_ecef (math_radians o_lat_deg) (math_radians o_lon_deg) o_hae_km
             = Inr (ox, oy, oz)
         \<and> sez_to_ecef (math_radians o_lat_deg) (math_radians o_lon_deg) s_km e_km z_km
             = Inr (sx, sy, sz)
         \<and> main parse argv =
             \<lparr>stdout = [Number (fl_add ox sx), Number (fl_add oy sy), Number (fl_add oz sz)],
              outcome = Completed\<rparr>"
  unfolding main_parsed [OF assms(1-7)] by (rule body_defined [OF assms(8,9)])

theorem main_six_arguments_witness:
  "\<exists>ox oy oz sx sy sz.
     llh_to_ecef (math_radians (Finite 90)) (math_radians (Finite 0)) (Finite 0)
       = Inr (ox, oy, oz)
   \<and> sez_to_ecef (math_radians (Finite 90)) (math_radians (Finite 0))
         (Finite 0) (Finite 0) (Finite 0)
       = Inr (sx, sy, sz)
   \<and> main float_sample [''sez_to_ecef.py'', ''90'', ''0'', ''0'', ''0'', ''0'', ''0''] =
       \<lparr>stdout = [Number (fl_add ox sx), Number (fl_add oy sy), Number (fl_add oz sz)],
        outcome = Completed\<rparr>"
  by (rule main_six_arguments) (simp_all add: float_sample_simps)

text \<open>
  C1 as first stated, for every six arguments that convert, fails: \<^verbatim>\<open>inf\<close> converts,
  \<^verbatim>\<open>math.radians\<close> keeps it, and \<^verbatim>\<open>math.sin\<close> in \<^verbatim>\<open>calc_denom\<close> raises on
  it, so nothing is printed.
\<close>

theorem main_infinite_latitude_counterexample:
  "float_sample ''inf'' = Some PInf \<and> float_sample ''0'' = Some (Finite 0)
   \<and> main float_sample [''sez_to_ecef.py'', ''inf'', ''0'', ''0'', ''0'', ''0'', ''0'']
       = \<lparr>stdout = [], outcome = Raised ValueError_domain\<rparr>"
  by (simp add: float_sample_simps main_def body_inf raise_def)

section \<open>The helper functions on real arguments\<close>

text \<open>
  C2. For a latitude \<open>\<phi>\<close>, a longitude \<open>l\<close> and a height \<open>h\<close>,
  \<^verbatim>\<open>llh_to_ecef\<close> returns, without raising, the triple
  \<open>((N + h) cos \<phi> cos l, (N + h) cos \<phi> sin l, (N (1 - e\<^sup>2) + h) sin \<phi>)\<close>, where
  \<open>N\<close> is the equatorial radius 6378.137 divided by the denominator \<open>D\<close> of
  \<^verbatim>\<open>calc_denom\<close> and \<open>e\<close> is the eccentricity 0.081819221456.
\<close>

theorem llh_to_ecef_formula:
  fixes \<phi> l h :: real
  defines "D \<equiv> sqrt (1 - 0.081819221456\<^sup>2 * (sin \<phi>)\<^sup>2)"
  defines "N \<equiv> 6378.137 / D"
  shows "llh_to_ecef (Finite \<phi>) (Finite l) (Finite h) =
           Inr (Finite ((N + h) * cos \<phi> * cos l),
                Finite ((N + h) * cos \<phi> * sin l),
                Finite ((N * (1 - 0.081819221456\<^sup>2) + h) * sin \<phi>))"
proof -
  have "D \<noteq> 0" using denom_arg_pos [of \<phi>] by (simp add: D_def)
  then show ?thesis
    unfolding llh_to_ecef_def calc_denom_E_E fl_pow2_E_E D_def [symmetric]
    by (simp add: bind_r_def fl_div_def fl_sub_def R_E_KM_def N_def)
qed

text \<open>
  C3. For a latitude \<open>\<phi>\<close>, a longitude \<open>l\<close> and an offset \<open>(s, e, z)\<close>,
  \<^verbatim>\<open>sez_to_ecef\<close> returns, without raising, exactly the three sums of products of the
  rotation: no term is free of \<open>s\<close>, \<open>e\<close> and \<open>z\<close>, so nothing is translated.
\<close>

theorem sez_to_ecef_formula:
  fixes \<phi> l s e z :: real
  shows "sez_to_ecef (Finite \<phi>) (Finite l) (Finite s) (Finite e) (Finite z) =
           Inr (Finite (s * sin \<phi> * cos l - e * sin l + z * cos \<phi> * cos l),
                Finite (s * sin \<phi> * sin l + e * cos l + z * cos \<phi> * sin l),
                Finite (- s * cos \<phi> + z * sin \<phi>))"
  by (simp add: sez_to_ecef_def bind_r_def)

text \<open>
  C4, as amended. For an eccentricity \<open>e\<close> with \<open>\<bar>e\<bar> < 1\<close>, so that
  \<open>e\<^sup>2 * sin\<^sup>2 \<phi> < 1\<close>, and a latitude \<open>\<phi>\<close>, \<^verbatim>\<open>calc_denom\<close> returns
  \<open>sqrt (1 - e\<^sup>2 * sin\<^sup>2 \<phi>)\<close>, without raising, and the value lies in the interval
  \<open>(0, 1]\<close>.
\<close>

theorem calc_denom_value:
  fixes e \<phi> :: real
  assumes "\<bar>e\<bar> < 1"
  shows "calc_denom (Finite e) (Finite \<phi>) = Inr (Finite (sqrt (1 - e\<^sup>2 * (sin \<phi>)\<^sup>2)))
       \<and> e\<^sup>2 * (sin \<phi>)\<^sup>2 < 1
       \<and> 0 < sqrt (1 - e\<^sup>2 * (sin \<phi>)\<^sup>2)
       \<and> sqrt (1 - e\<^sup>2 * (sin \<phi>)\<^sup>2) \<le> 1"
proof -
  from assms have e: "e\<^sup>2 < 1"
    by (simp add: abs_square_less_1)
  have "1 - e\<^sup>2 \<le> 1 - e\<^sup>2 * (sin \<phi>)\<^sup>2"
    by (rule denom_arg_lower) simp
  with e have lt: "e\<^sup>2 * (sin \<phi>)\<^sup>2 < 1"
    by simp
  from e have "e\<^sup>2 \<le> 1" by simp
  from calc_denom_Finite [OF this, of \<phi>] lt show ?thesis
    by simp
qed

theorem calc_denom_value_witness:
  "\<bar>0.081819221456::real\<bar> < 1
   \<and> calc_denom E_E (Finite (pi / 2)) = Inr (Finite (sqrt (1 - 0.081819221456\<^sup>2)))
   \<and> 0 < sqrt (1 - (0.081819221456::real)\<^sup>2)
   \<and> sqrt (1 - (0.081819221456::real)\<^sup>2) \<le> 1"
proof -
  have h: "\<bar>0.081819221456::real\<bar> < 1"
    by simp
  from calc_denom_value [OF h, of "pi / 2"] h show ?thesis
    by (simp add: E_E_def)
qed

text \<open>
  C4 as first stated, for every \<open>e\<close> and \<open>\<phi>\<close> with \<open>e\<^sup>2 * sin\<^sup>2 \<phi> < 1\<close>, fails: at
  \<open>e = 2^512\<close> and \<open>\<phi> = 0\<close> the product is 0, and \<^verbatim>\<open>ecc**2\<close> raises
  \<^verbatim>\<open>OverflowError\<close> before the sine is taken, so nothing is returned.
\<close>

theorem calc_denom_overflow_counterexample:
  "((2::real) ^ 512)\<^sup>2 * (sin 0)\<^sup>2 < 1
   \<and> calc_denom (Finite (2 ^ 512)) (Finite 0) = Inl OverflowError"
  by (simp add: calc_denom_def bind_r_def overflow_bound_def)

section \<open>Failures of a run\<close>

text \<open>
  C5. When the argument count is not six (\<^verbatim>\<open>sys.argv\<close> does not have seven entries),
  the run prints the usage line and nothing else, and exits: whatever the arguments are
  and whatever \<^verbatim>\<open>float\<close> would make of them, nothing is converted or computed and no
  number is printed.
\<close>

theorem usage_on_wrong_count:
  assumes "length argv \<noteq> 7"
  shows "main parse argv = \<lparr>stdout = [Text usage], outcome = Exited\<rparr>"
  using assms by (simp add: main_def)

theorem usage_on_wrong_count_witness:
  "main float_sample [''sez_to_ecef.py'', ''0'', ''0''] =
     \<lparr>stdout = [Text usage], outcome = Exited\<rparr>"
  by (rule usage_on_wrong_count) simp

text \<open>
  C6, as amended. A run with exactly six arguments ends in the unhandled conversion
  \<^verbatim>\<open>ValueError\<close>, with nothing printed, exactly when one of the arguments does not
  convert. When all six convert, it fails in one more case and only there: the latitude
  or the longitude is infinite, \<^verbatim>\<open>math.sin\<close> or \<^verbatim>\<open>math.cos\<close> raises
  \<^verbatim>\<open>ValueError\<close> (math domain error), and again nothing is printed. In every other
  case three numbers are printed.
\<close>

theorem six_argument_failures:
  assumes "length argv = 7"
  shows "(main parse argv = \<lparr>stdout = [], outcome = Raised ValueError_float\<rparr>)
           = (\<not> args_parse parse argv)
       \<and> (main parse argv = \<lparr>stdout = [], outcome = Raised ValueError_domain\<rparr>)
           = (args_parse parse argv \<and> infinite_angle parse argv)
       \<and> (\<exists>x y z. main parse argv =
                     \<lparr>stdout = [Number x, Number y, Number z], outcome = Completed\<rparr>)
           = (args_parse parse argv \<and> \<not> infinite_angle parse argv)"
proof (cases "args_parse parse argv")
  case False
  then show ?thesis
    by (simp add: main_unparsed [OF assms] raise_def)
next
  case True
  from main_parsed_body [OF assms True]
  obtain lat lon h s e z where
    inf: "infinite_angle parse argv = (is_inf lat \<or> is_inf lon)"
    and m: "main parse argv = body lat lon h s e z"
    by blast
  show ?thesis
  proof (cases "infinite_angle parse argv")
    case T: True
    then have "body lat lon h s e z = raise ValueError_domain"
      unfolding inf by (rule body_inf)
    with True T show ?thesis by (simp add: m raise_def)
  next
    case F: False
    then have "\<not> is_inf lat" "\<not> is_inf lon" unfolding inf by simp_all
    from body_defined [OF this, of h s e z] True F show ?thesis
      by (auto simp: m)
  qed
qed

theorem six_argument_failures_witness:
  "main float_sample [''sez_to_ecef.py'', ''0'', ''0'', ''abc'', ''0'', ''0'', ''0'']
     = \<lparr>stdout = [], outcome = Raised ValueError_float\<rparr>"
  using six_argument_failures
    [of "[''sez_to_ecef.py'', ''0'', ''0'', ''abc'', ''0'', ''0'', ''0'']" float_sample]
  by (simp add: args_parse_def float_sample_simps)

text \<open>
  C6 as first stated, with an argument that does not convert as the only failure of a
  six-argument run, fails: all six arguments below convert, and the run raises in
  \<^verbatim>\<open>math.cos\<close> on the longitude.
\<close>

theorem infinite_longitude_counterexample:
  "float_sample ''0'' = Some (Finite 0) \<and> float_sample ''-inf'' = Some NInf
   \<and> main float_sample [''sez_to_ecef.py'', ''0'', ''-inf'', ''0'', ''0'', ''0'', ''0'']
       = \<lparr>stdout = [], outcome = Raised ValueError_domain\<rparr>"
  by (simp add: float_sample_simps main_def body_inf raise_def)

section \<open>Properties of the result\<close>

text \<open>
  C7. For a fixed latitude and longitude, the rotation of \<^verbatim>\<open>sez_to_ecef\<close> keeps the
  Euclidean norm of every offset \<open>(s, e, z)\<close>: over the reals, exactly.
\<close>

theorem sez_to_ecef_preserves_norm:
  fixes \<phi> l s e z :: real
  shows "\<exists>x y w. sez_to_ecef (Finite \<phi>) (Finite l) (Finite s) (Finite e) (Finite z) =
                    Inr (Finite x, Finite y, Finite w)
               \<and> sqrt (x\<^sup>2 + y\<^sup>2 + w\<^sup>2) = sqrt (s\<^sup>2 + e\<^sup>2 + z\<^sup>2)"
proof -
  have "(s * sin \<phi> * cos l - e * sin l + z * cos \<phi> * cos l)\<^sup>2
        + (s * sin \<phi> * sin l + e * cos l + z * cos \<phi> * sin l)\<^sup>2
        + (- s * cos \<phi> + z * sin \<phi>)\<^sup>2 = s\<^sup>2 + e\<^sup>2 + z\<^sup>2"
    by (rule rotation_norm_sq) simp_all
  then show ?thesis
    by (simp add: sez_to_ecef_def bind_r_def)
qed

text \<open>
  C8. With latitude 0, longitude 0, height 0 and the offset \<open>(0, 0, 0)\<close>, the run prints
  6378.137, 0 and 0: the equatorial radius on the x axis.
\<close>

theorem known_value_equator:
  assumes "length argv = 7"
    and "parse (argv ! 1) = Some (Finite 0)" and "parse (argv ! 2) = Some (Finite 0)"
    and "parse (argv ! 3) = Some (Finite 0)" and "parse (argv ! 4) = Some (Finite 0)"
    and "parse (argv ! 5) = Some (Finite 0)" and "parse (argv ! 6) = Some (Finite 0)"
  shows "main parse argv =
           \<lparr>stdout = [Number (Finite 6378.137), Number (Finite 0), Number (Finite 0)],
            outcome = Completed\<rparr>"
  unfolding main_parsed [OF assms] by (rule body_equator)

theorem known_value_equator_witness:
  "main float_sample [''sez_to_ecef.py'', ''0'', ''0'', ''0'', ''0'', ''0'', ''0''] =
           \<lparr>stdout = [Number (Finite 6378.137), Number (Finite 0), Number (Finite 0)],
            outcome = Completed\<rparr>"
  by (rule known_value_equator) (simp_all add: float_sample_simps)

text \<open>
  C9, as amended. Two runs whose six arguments differ in the longitude only, and that
  both run to completion, print three lines each and the same third line: the printed z
  coordinate does not depend on the longitude argument.
\<close>

theorem z_line_ignores_longitude:
  assumes "length argv = 7"
    and "outcome (main parse argv) = Completed"
    and "outcome (main parse (argv[2 := lon_arg])) = Completed"
  shows "length (stdout (main parse argv)) = 3
       \<and> length (stdout (main parse (argv[2 := lon_arg]))) = 3
       \<and> stdout (main parse (argv[2 := lon_arg])) ! 2 = stdout (main parse argv) ! 2"
proof -
  from main_completed_body [OF assms(1,2)] obtain lat lon h s e z where
    p: "parse (argv ! 1) = Some lat" "parse (argv ! 3) = Some h"
       "parse (argv ! 4) = Some s" "parse (argv ! 5) = Some e" "parse (argv ! 6) = Some z"
    and m: "main parse argv = body lat lon h s e z"
    by blast
  have len: "length (argv[2 := lon_arg]) = 7" using assms(1) by simp
  from main_completed_body [OF len assms(3)] obtain lat' lon' h' s' e' z' where
    p': "parse (argv[2 := lon_arg] ! 1) = Some lat'" "parse (argv[2 := lon_arg] ! 3) = Some h'"
       "parse (argv[2 := lon_arg] ! 4) = Some s'" "parse (argv[2 := lon_arg] ! 5) = Some e'"
       "parse (argv[2 := lon_arg] ! 6) = Some z'"
    and m': "main parse (argv[2 := lon_arg]) = body lat' lon' h' s' e' z'"
    by blast
  from p p' have eq: "lat' = lat" "h' = h" "s' = s" "e' = e" "z' = z"
    by simp_all
  from assms(2,3) show ?thesis
    unfolding m m' eq by (rule body_z_indep)
qed

theorem z_line_ignores_longitude_witness:
  "outcome (main float_sample [''sez_to_ecef.py'', ''90'', ''0'', ''0'', ''0'', ''0'', ''0''])
     = Completed
   \<and> outcome (main float_sample [''sez_to_ecef.py'', ''90'', ''nan'', ''0'', ''0'', ''0'', ''0''])
     = Completed
   \<and> length (stdout (main float_sample
        [''sez_to_ecef.py'', ''90'', ''0'', ''0'', ''0'', ''0'', ''0''])) = 3
   \<and> length (stdout (main float_sample
        [''sez_to_ecef.py'', ''90'', ''nan'', ''0'', ''0'', ''0'', ''0''])) = 3
   \<and> stdout (main float_sample [''sez_to_ecef.py'', ''90'', ''nan'', ''0'', ''0'', ''0'', ''0'']) ! 2
     = stdout (main float_sample [''sez_to_ecef.py'', ''90'', ''0'', ''0'', ''0'', ''0'', ''0'']) ! 2"
proof -
  have a: "outcome (main float_sample
             [''sez_to_ecef.py'', ''90'', ''0'', ''0'', ''0'', ''0'', ''0'']) = Completed"
    by (simp add: main_def float_sample_simps body_outcome)
  have b: "outcome (main float_sample
             ([''sez_to_ecef.py'', ''90'', ''0'', ''0'', ''0'', ''0'', ''0''][2 := ''nan'']))
           = Completed"
    by (simp add: main_def float_sample_simps body_outcome)
  have l: "length [''sez_to_ecef.py'', ''90'', ''0'', ''0'', ''0'', ''0'', ''0''] = 7"
    by simp
  from z_line_ignores_longitude [OF l a b] a b show ?thesis
    by simp
qed

text \<open>
  C9 as first stated, for every two runs that differ in the longitude only, fails: the
  first run below prints its three lines, the z coordinate third; the second, with the
  longitude \<^verbatim>\<open>inf\<close> and every other argument the same, raises in \<^verbatim>\<open>math.cos\<close>
  and prints no line at all.
\<close>

theorem z_line_missing_counterexample:
  "main float_sample [''sez_to_ecef.py'', ''0'', ''0'', ''0'', ''0'', ''0'', ''0'']
     = \<lparr>stdout = [Number (Finite 6378.137), Number (Finite 0), Number (Finite 0)],
        outcome = Completed\<rparr>
   \<and> main float_sample [''sez_to_ecef.py'', ''0'', ''inf'', ''0'', ''0'', ''0'', ''0'']
     = \<lparr>stdout = [], outcome = Raised ValueError_domain\<rparr>"
proof -
  have "body (Finite 0) (Finite 0) (Finite 0) (Finite 0) (Finite 0) (Finite 0)
     = \<lparr>stdout = [Number (Finite 6378.137), Number (Finite 0), Number (Finite 0)],
        outcome = Completed\<rparr>"
    by (rule body_equator)
  then show ?thesis
    by (simp add: float_sample_simps main_def body_inf raise_def)
qed

text \<open>
  C10. With the eccentricity \<open>e\<close> of the script, \<open>1 - e\<^sup>2 sin\<^sup>2 \<phi> \<ge> 1 - e\<^sup>2 > 0\<close> for
  every real latitude \<open>\<phi>\<close>: \<^verbatim>\<open>calc_denom\<close> returns the square root and raises no
  math domain error, the value is not zero, and the division of the equatorial radius by
  it in \<^verbatim>\<open>llh_to_ecef\<close> returns a value.
\<close>

theorem calc_denom_total:
  fixes \<phi> :: real
  defines "e \<equiv> 0.081819221456"
  shows "E_E = Finite e
       \<and> 1 - e\<^sup>2 \<le> 1 - e\<^sup>2 * (sin \<phi>)\<^sup>2
       \<and> 0 < 1 - e\<^sup>2
       \<and> calc_denom E_E (Finite \<phi>) = Inr (Finite (sqrt (1 - e\<^sup>2 * (sin \<phi>)\<^sup>2)))
       \<and> 0 < sqrt (1 - e\<^sup>2 * (sin \<phi>)\<^sup>2)
       \<and> fl_div R_E_KM (Finite (sqrt (1 - e\<^sup>2 * (sin \<phi>)\<^sup>2))) =
           Inr (Finite (6378.137 / sqrt (1 - e\<^sup>2 * (sin \<phi>)\<^sup>2)))"
proof -
  have pos: "0 < 1 - e\<^sup>2 * (sin \<phi>)\<^sup>2"
    unfolding e_def by (rule denom_arg_pos)
  have "1 - e\<^sup>2 \<le> 1 - e\<^sup>2 * (sin \<phi>)\<^sup>2"
    by (rule denom_arg_lower) simp
  moreover have "0 < 1 - e\<^sup>2"
    unfolding e_def by (rule E_E_sq_lt_1)
  moreover have "calc_denom E_E (Finite \<phi>) = Inr (Finite (sqrt (1 - e\<^sup>2 * (sin \<phi>)\<^sup>2)))"
    unfolding e_def by (rule calc_denom_E_E)
  moreover have "0 < sqrt (1 - e\<^sup>2 * (sin \<phi>)\<^sup>2)"
    using pos by simp
  moreover from this have "fl_div R_E_KM (Finite (sqrt (1 - e\<^sup>2 * (sin \<phi>)\<^sup>2))) =
           Inr (Finite (6378.137 / sqrt (1 - e\<^sup>2 * (sin \<phi>)\<^sup>2)))"
    by (simp add: fl_div_def R_E_KM_def)
  moreover have "E_E = Finite e"
    by (simp add: E_E_def e_def)
  ultimately show ?thesis by blast
qed

end
